theory Spec2Isabelle
  imports Complex_Main
begin

section \<open>Afforestation impact calculator: the growth and carbon model of script.js\<close>

text \<open>
  The development embeds the model part of \<^verbatim>\<open>script.js\<close>: the species table
  \<^verbatim>\<open>treeSpecies\<close>, the constant \<^verbatim>\<open>CO2_TO_CARBON_RATIO\<close>,
  \<^verbatim>\<open>calculateBiomass\<close>, \<^verbatim>\<open>calculateCarbonSequestration\<close> and the input
  validation of \<^verbatim>\<open>calculateImpact\<close>.

  Numbers. A JavaScript Number is an IEEE-754 double. The embedding idealises the
  fractional quantities (biomass, carbon, CO2) as mathematical reals: \<open>+\<close>, \<open>*\<close>, \<open>/\<close>,
  \<^verbatim>\<open>Math.exp\<close>, \<^verbatim>\<open>Math.min\<close>, \<^verbatim>\<open>Math.max\<close> and \<^verbatim>\<open>Math.round\<close> are exact, and a
  decimal literal such as \<^verbatim>\<open>0.1\<close> denotes the rational it is written as. Every theorem
  below is a statement about this exact arithmetic; the rounding error of the
  double-precision operations is outside the model. Tree counts, durations and year
  indices are integer-valued Numbers and are modelled as \<open>int\<close>.

  Names. Functions, constants and record fields keep the names of the source. A
  parameter or local variable whose source name is also a field of a record is
  shortened: \<open>sp\<close> for \<^verbatim>\<open>species\<close>, \<open>nYears\<close> for \<^verbatim>\<open>years\<close>, \<open>yr\<close> for
  \<^verbatim>\<open>year\<close>, \<open>res\<close> for \<^verbatim>\<open>results\<close>; \<open>sd\<close> stands for \<^verbatim>\<open>speciesData\<close>.
\<close>

subsection \<open>The species table\<close>

record speciesData =
  name :: string
  maxAge :: int
  maxBiomass :: real
  growthRate :: real
  woodDensity :: real
  carbonFraction :: real

definition teak :: speciesData where
  "teak = \<lparr>name = ''Teak'', maxAge = 50, maxBiomass = 800, growthRate = 0.25,
            woodDensity = 0.65, carbonFraction = 0.47\<rparr>"

definition pine :: speciesData where
  "pine = \<lparr>name = ''Pine'', maxAge = 40, maxBiomass = 600, growthRate = 0.30,
            woodDensity = 0.45, carbonFraction = 0.50\<rparr>"

definition oak :: speciesData where
  "oak = \<lparr>name = ''Oak'', maxAge = 60, maxBiomass = 900, growthRate = 0.20,
           woodDensity = 0.72, carbonFraction = 0.48\<rparr>"

definition eucalyptus :: speciesData where
  "eucalyptus = \<lparr>name = ''Eucalyptus'', maxAge = 30, maxBiomass = 500, growthRate = 0.35,
                  woodDensity = 0.55, carbonFraction = 0.49\<rparr>"

text \<open>
  \<^verbatim>\<open>treeSpecies\<close> is an object literal with four own keys; \<^verbatim>\<open>treeSpecies[species]\<close> is
  modelled as a lookup in the map of these keys, \<open>None\<close> standing for \<^verbatim>\<open>undefined\<close>.
  A property name that every JavaScript object inherits from \<^verbatim>\<open>Object.prototype\<close>
  does not evaluate to \<^verbatim>\<open>undefined\<close>; these names are listed in
  \<open>objectPrototypeKeys\<close> and are excluded by hypothesis wherever a theorem speaks
  about an identifier that is missing from the table.
\<close>

definition treeSpecies :: "string \<rightharpoonup> speciesData" where
  "treeSpecies = map_of
     [(''teak'', teak), (''pine'', pine), (''oak'', oak), (''eucalyptus'', eucalyptus)]"

definition objectPrototypeKeys :: "string list" where
  "objectPrototypeKeys =
     [''constructor'', ''__proto__'', ''hasOwnProperty'', ''isPrototypeOf'',
      ''propertyIsEnumerable'', ''toLocaleString'', ''toString'', ''valueOf'',
      ''__defineGetter__'', ''__defineSetter__'', ''__lookupGetter__'', ''__lookupSetter__'']"

definition CO2_TO_CARBON_RATIO :: real where
  "CO2_TO_CARBON_RATIO = 3.67"

subsection \<open>Biomass at a given age\<close>

text \<open>
  \<^verbatim>\<open>calculateBiomass(age, speciesData)\<close>: the statements of the function body in their
  order. The variable \<^verbatim>\<open>biomass\<close> is assigned three times; the model names the
  successive values \<open>biomass\<close>, \<open>biomass1\<close>, \<open>biomass2\<close>.
\<close>

definition calculateBiomass :: "int \<Rightarrow> speciesData \<Rightarrow> real" where
  "calculateBiomass age sd =
     (let K = maxBiomass sd;
          r = growthRate sd;
          B0 = 0.1;
          A = (K - B0) / B0;
          biomass = K / (1 + A * exp (- r * real_of_int age));
          biomass1 = min biomass K;
          biomass2 = biomass1 * woodDensity sd
      in max biomass2 0)"

subsection \<open>Year-by-year aggregation\<close>

text \<open>
  \<^verbatim>\<open>Math.round(x)\<close> is the integer nearest to \<open>x\<close>, a tie going towards plus infinity.
\<close>

definition Math_round :: "real \<Rightarrow> real" where
  "Math_round x = of_int \<lfloor>x + 1 / 2\<rfloor>"

record yearRecord =
  year :: int
  biomass_per_tree :: real
  co2_per_tree :: real
  total_co2 :: real

record calculationResult =
  success :: bool
  species :: string
  num_trees :: int
  years :: int
  final_co2 :: real
  results :: "yearRecord list"

text \<open>
  One pass through the body of the \<^verbatim>\<open>for\<close> loop of
  \<^verbatim>\<open>calculateCarbonSequestration\<close>. The loop state is the pair of the mutable
  variables \<^verbatim>\<open>totalCO2\<close> and \<^verbatim>\<open>results\<close>; \<^verbatim>\<open>results.push\<close> appends at the end.
\<close>

definition loopBody :: "speciesData \<Rightarrow> int \<Rightarrow> int \<Rightarrow> real \<times> yearRecord list \<Rightarrow> real \<times> yearRecord list" where
  "loopBody sd numTrees yr st =
     (let totalCO2 = fst st;
          res = snd st;
          biomass = calculateBiomass yr sd;
          carbonContent = biomass * carbonFraction sd;
          co2PerTree = carbonContent * CO2_TO_CARBON_RATIO;
          totalCo2ForYear = (co2PerTree * real_of_int numTrees) / 1000;
          totalCO2' = totalCO2 + totalCo2ForYear
      in (totalCO2',
          res @ [\<lparr>year = yr,
                   biomass_per_tree = Math_round (biomass * 10) / 10,
                   co2_per_tree = Math_round (co2PerTree * 10) / 10,
                   total_co2 = Math_round (totalCO2' * 10) / 10\<rparr>]))"

text \<open>
  \<^verbatim>\<open>for (let year = 1; year <= years; year++) { ... }\<close>, started at \<open>yr\<close>.
\<close>

function forLoop :: "speciesData \<Rightarrow> int \<Rightarrow> int \<Rightarrow> int \<Rightarrow> real \<times> yearRecord list \<Rightarrow> real \<times> yearRecord list" where
  "forLoop sd numTrees nYears yr st =
     (if yr \<le> nYears then forLoop sd numTrees nYears (yr + 1) (loopBody sd numTrees yr st)
      else st)"
  by pat_completeness auto
termination
  by (relation "measure (\<lambda>(sd, numTrees, nYears, yr, st). nat (nYears + 1 - yr))") auto

declare forLoop.simps [simp del]

datatype exception = TypeError

text \<open>
  \<^verbatim>\<open>calculateCarbonSequestration(species, numTrees, years)\<close>. When
  \<^verbatim>\<open>treeSpecies[species]\<close> is \<^verbatim>\<open>undefined\<close> the function throws a \<^verbatim>\<open>TypeError\<close> at
  its first property access on \<^verbatim>\<open>speciesData\<close>: in the first pass of the loop, at
  \<^verbatim>\<open>speciesData.maxBiomass\<close> inside \<^verbatim>\<open>calculateBiomass\<close> and before any arithmetic,
  or, when the loop does not run, at \<^verbatim>\<open>speciesData.name\<close> in the returned object.
\<close>

definition calculateCarbonSequestration :: "string \<Rightarrow> int \<Rightarrow> int \<Rightarrow> exception + calculationResult" where
  "calculateCarbonSequestration sp numTrees nYears =
     (case treeSpecies sp of
        None \<Rightarrow> Inl TypeError
      | Some sd \<Rightarrow>
          (let st = forLoop sd numTrees nYears 1 (0, []);
               totalCO2 = fst st;
               res = snd st
           in Inr \<lparr>success = True,
                   species = name sd,
                   num_trees = numTrees,
                   years = nYears,
                   final_co2 = Math_round totalCO2,
                   results = res\<rparr>))"

subsection \<open>Input validation\<close>

text \<open>
  \<^verbatim>\<open>parseInt\<close> returns \<^verbatim>\<open>NaN\<close> or an integer-valued Number.
\<close>

datatype parsed = NaN | Num int

text \<open>\<^verbatim>\<open>!x\<close> for a Number \<open>x\<close>: true for \<^verbatim>\<open>NaN\<close> and for zero.\<close>

fun falsy :: "parsed \<Rightarrow> bool" where
  "falsy NaN = True"
| "falsy (Num n) = (n = 0)"

text \<open>
  The four messages that \<^verbatim>\<open>calculateImpact\<close> passes to \<^verbatim>\<open>showError\<close>, in the order
  of the source.
\<close>

datatype error = MissingField | TreeCountOutOfRange | DurationOutOfRange | CalculationFailed

fun errorMessage :: "error \<Rightarrow> string" where
  "errorMessage MissingField = ''Please fill in all fields''"
| "errorMessage TreeCountOutOfRange = ''Number of trees must be between 1 and 100,000''"
| "errorMessage DurationOutOfRange = ''Project duration must be between 1 and 50 years''"
| "errorMessage CalculationFailed = ''Failed to calculate impact. Please try again.''"

text \<open>\<^verbatim>\<open>x < k\<close> and \<^verbatim>\<open>x > k\<close> for a Number \<open>x\<close>: false when \<open>x\<close> is \<^verbatim>\<open>NaN\<close>.\<close>

fun lessThan_js :: "parsed \<Rightarrow> int \<Rightarrow> bool" where
  "lessThan_js NaN k = False"
| "lessThan_js (Num n) k = (n < k)"

fun greaterThan_js :: "parsed \<Rightarrow> int \<Rightarrow> bool" where
  "greaterThan_js NaN k = False"
| "greaterThan_js (Num n) k = (n > k)"

text \<open>
  The three guards at the head of \<^verbatim>\<open>calculateImpact\<close>, in the order of the source;
  each one calls \<^verbatim>\<open>showError\<close> and returns. \<open>None\<close>: no guard fired. The empty
  string is the only falsy string.
\<close>

definition validateInputs :: "string \<Rightarrow> parsed \<Rightarrow> parsed \<Rightarrow> error option" where
  "validateInputs sp numTrees nYears =
     (if sp = [] \<or> falsy numTrees \<or> falsy nYears then Some MissingField
      else if lessThan_js numTrees 1 \<or> greaterThan_js numTrees 100000 then Some TreeCountOutOfRange
      else if lessThan_js nYears 1 \<or> greaterThan_js nYears 50 then Some DurationOutOfRange
      else None)"

text \<open>
  \<^verbatim>\<open>calculateImpact\<close>, with the three form values as parameters: the species string
  and the two results of \<^verbatim>\<open>parseInt\<close>. \<open>Inl e\<close> is the call of \<^verbatim>\<open>showError\<close> with
  the message of \<open>e\<close>; \<open>Inr r\<close> is the call \<^verbatim>\<open>displayResults(r)\<close>. The \<^verbatim>\<open>catch\<close>
  clause turns every exception of the computation into the fourth message. When one
  of the two Numbers is \<^verbatim>\<open>NaN\<close> the first guard fires (second equation).
\<close>

fun calculateImpact :: "string \<Rightarrow> parsed \<Rightarrow> parsed \<Rightarrow> error + calculationResult" where
  "calculateImpact sp (Num numTrees) (Num nYears) =
     (case validateInputs sp (Num numTrees) (Num nYears) of
        Some e \<Rightarrow> Inl e
      | None \<Rightarrow>
          (case calculateCarbonSequestration sp numTrees nYears of
             Inl ex \<Rightarrow> Inl CalculationFailed
           | Inr r \<Rightarrow> Inr r))"
| "calculateImpact sp numTrees nYears = Inl MissingField"

subsection \<open>Auxiliary notions for the statements\<close>

text \<open>
  The definitions of this subsection are not functions of the program; they name the
  quantities that the theorems speak about.

  \<open>wellFormed\<close>: the sign conditions on a species profile under which the growth
  curve is monotone; every profile of the table satisfies them.
\<close>

definition wellFormed :: "speciesData \<Rightarrow> bool" where
  "wellFormed sd \<longleftrightarrow>
     0.1 \<le> maxBiomass sd \<and> 0 \<le> growthRate sd \<and> 0 \<le> woodDensity sd \<and> 0 \<le> carbonFraction sd"

text \<open>The denominator \<open>1 + A * exp (- r * age)\<close> of the logistic curve.\<close>

definition growthDenominator :: "speciesData \<Rightarrow> int \<Rightarrow> real" where
  "growthDenominator sd age =
     1 + (maxBiomass sd - 0.1) / 0.1 * exp (- growthRate sd * real_of_int age)"

text \<open>
  The contribution of one year to the running total, in metric tons, and the exact
  running total through year \<open>yr\<close>: the value of the variable \<^verbatim>\<open>totalCO2\<close> after the
  pass for that year, before any rounding for display.
\<close>

definition yearTotal :: "speciesData \<Rightarrow> int \<Rightarrow> int \<Rightarrow> real" where
  "yearTotal sd numTrees yr =
     (calculateBiomass yr sd * carbonFraction sd * CO2_TO_CARBON_RATIO * real_of_int numTrees) / 1000"

definition cumulative :: "speciesData \<Rightarrow> int \<Rightarrow> int \<Rightarrow> real" where
  "cumulative sd numTrees yr = (\<Sum>j = 1..yr. yearTotal sd numTrees j)"

text \<open>The record that the pass for year \<open>yr\<close> pushes.\<close>

definition recordFor :: "speciesData \<Rightarrow> int \<Rightarrow> int \<Rightarrow> yearRecord" where
  "recordFor sd numTrees yr =
     \<lparr>year = yr,
      biomass_per_tree = Math_round (calculateBiomass yr sd * 10) / 10,
      co2_per_tree = Math_round (calculateBiomass yr sd * carbonFraction sd * CO2_TO_CARBON_RATIO * 10) / 10,
      total_co2 = Math_round (cumulative sd numTrees yr * 10) / 10\<rparr>"

text \<open>
  The request is valid: the species is a key of the table with profile \<open>sd\<close>, the tree
  count is in \<open>[1, 100000]\<close> and the duration in \<open>[1, 50]\<close>.
\<close>

definition validRequest :: "string \<Rightarrow> speciesData \<Rightarrow> int \<Rightarrow> int \<Rightarrow> bool" where
  "validRequest sp sd numTrees nYears \<longleftrightarrow>
     treeSpecies sp = Some sd \<and> 1 \<le> numTrees \<and> numTrees \<le> 100000 \<and> 1 \<le> nYears \<and> nYears \<le> 50"

text \<open>
  The operation \<open>biomassAtAge\<close> as the specification words it (section 4.1): with
  \<open>B0 = 0.1\<close> and \<open>A = (maxBiomassKg - B0) / B0\<close>, the raw biomass
  \<open>maxBiomassKg / (1 + A * exp (- growthRate * ageYears))\<close> is clamped to at most
  \<open>maxBiomassKg\<close>, then multiplied by \<open>woodDensity\<close>, then floored at \<open>0\<close>.
\<close>

definition biomassAtAge_spec :: "int \<Rightarrow> speciesData \<Rightarrow> real" where
  "biomassAtAge_spec ageYears profile =
     max (min (maxBiomass profile /
                 (1 + ((maxBiomass profile - 0.1) / 0.1) * exp (- growthRate profile * real_of_int ageYears)))
              (maxBiomass profile)
          * woodDensity profile)
         0"

section \<open>Properties\<close>

subsection \<open>The species table\<close>

lemma treeSpecies_cases:
  "treeSpecies sp = Some sd \<Longrightarrow> sd = teak \<or> sd = pine \<or> sd = oak \<or> sd = eucalyptus"
  by (auto simp: treeSpecies_def split: if_splits)

lemma treeSpecies_wellFormed: "treeSpecies sp = Some sd \<Longrightarrow> wellFormed sd"
  by (auto dest!: treeSpecies_cases simp: wellFormed_def teak_def pine_def oak_def eucalyptus_def)

lemma treeSpecies_nonempty: "treeSpecies sp = Some sd \<Longrightarrow> sp \<noteq> []"
  by (auto simp: treeSpecies_def)

lemma treeSpecies_pine: "treeSpecies ''pine'' = Some pine"
  by (simp add: treeSpecies_def)

lemma validRequest_pine: "validRequest ''pine'' pine 1000 3"
  by (simp add: validRequest_def treeSpecies_pine)

subsection \<open>Rounding\<close>

lemma Math_round_mono: "x \<le> y \<Longrightarrow> Math_round x \<le> Math_round y"
  by (simp add: Math_round_def floor_mono)

lemma Math_round_of_int: "Math_round (of_int k) = of_int k"
  unfolding Math_round_def by (simp add: floor_unique)

subsection \<open>The growth curve\<close>

lemma calculateBiomass_unfold:
  "calculateBiomass age sd =
     max (min (maxBiomass sd / growthDenominator sd age) (maxBiomass sd) * woodDensity sd) 0"
  unfolding calculateBiomass_def Let_def growthDenominator_def ..

lemma calculateBiomass_nonneg: "0 \<le> calculateBiomass age sd"
  by (simp add: calculateBiomass_def Let_def)

lemma growthDenominator_ge_1:
  assumes "wellFormed sd"
  shows "1 \<le> growthDenominator sd age"
proof -
  have "0 \<le> (maxBiomass sd - 0.1) / 0.1" using assms by (simp add: wellFormed_def)
  then have "0 \<le> (maxBiomass sd - 0.1) / 0.1 * exp (- growthRate sd * real_of_int age)"
    by (intro mult_nonneg_nonneg) simp_all
  then show ?thesis unfolding growthDenominator_def by linarith
qed

lemma growthDenominator_antimono:
  assumes wf: "wellFormed sd" and ab: "a \<le> b"
  shows "growthDenominator sd b \<le> growthDenominator sd a"
proof -
  have r: "0 \<le> growthRate sd" using wf by (simp add: wellFormed_def)
  have A: "0 \<le> (maxBiomass sd - 0.1) / 0.1" using wf by (simp add: wellFormed_def)
  have "growthRate sd * real_of_int a \<le> growthRate sd * real_of_int b"
    using r ab by (intro mult_left_mono) simp_all
  then have "exp (- growthRate sd * real_of_int b) \<le> exp (- growthRate sd * real_of_int a)"
    by simp
  then have "(maxBiomass sd - 0.1) / 0.1 * exp (- growthRate sd * real_of_int b)
           \<le> (maxBiomass sd - 0.1) / 0.1 * exp (- growthRate sd * real_of_int a)"
    using A by (rule mult_left_mono)
  then show ?thesis unfolding growthDenominator_def by linarith
qed

lemma calculateBiomass_le:
  assumes "wellFormed sd"
  shows "calculateBiomass age sd \<le> maxBiomass sd * woodDensity sd"
proof -
  have K: "0 \<le> maxBiomass sd" and w: "0 \<le> woodDensity sd"
    using assms by (simp_all add: wellFormed_def)
  have "min (maxBiomass sd / growthDenominator sd age) (maxBiomass sd) \<le> maxBiomass sd"
    by simp
  then have "min (maxBiomass sd / growthDenominator sd age) (maxBiomass sd) * woodDensity sd
             \<le> maxBiomass sd * woodDensity sd"
    using w by (rule mult_right_mono)
  moreover have "0 \<le> maxBiomass sd * woodDensity sd" using K w by simp
  ultimately show ?thesis unfolding calculateBiomass_unfold by simp
qed

lemma calculateBiomass_mono:
  assumes wf: "wellFormed sd" and ab: "a \<le> b"
  shows "calculateBiomass a sd \<le> calculateBiomass b sd"
proof -
  have K: "0 \<le> maxBiomass sd" and w: "0 \<le> woodDensity sd"
    using wf by (simp_all add: wellFormed_def)
  have d: "growthDenominator sd b \<le> growthDenominator sd a"
    using wf ab by (rule growthDenominator_antimono)
  have pos: "0 < growthDenominator sd b"
    using growthDenominator_ge_1[OF wf, of b] by linarith
  have "maxBiomass sd / growthDenominator sd a \<le> maxBiomass sd / growthDenominator sd b"
    using K pos d by (intro frac_le) simp_all
  then have "min (maxBiomass sd / growthDenominator sd a) (maxBiomass sd)
           \<le> min (maxBiomass sd / growthDenominator sd b) (maxBiomass sd)"
    by (rule min.mono) simp
  then have "min (maxBiomass sd / growthDenominator sd a) (maxBiomass sd) * woodDensity sd
           \<le> min (maxBiomass sd / growthDenominator sd b) (maxBiomass sd) * woodDensity sd"
    using w by (rule mult_right_mono)
  then show ?thesis unfolding calculateBiomass_unfold by (rule max.mono) simp
qed

subsection \<open>The loop\<close>

lemma yearTotal_nonneg: "wellFormed sd \<Longrightarrow> 0 \<le> n \<Longrightarrow> 0 \<le> yearTotal sd n yr"
  by (simp add: yearTotal_def wellFormed_def CO2_TO_CARBON_RATIO_def calculateBiomass_nonneg)

lemma cumulative_step:
  assumes "1 \<le> yr"
  shows "cumulative sd n yr = cumulative sd n (yr - 1) + yearTotal sd n yr"
proof -
  have "{1..yr} = insert yr {1..yr - 1}" using assms by auto
  then show ?thesis by (simp add: cumulative_def)
qed

lemma cumulative_zero: "yr \<le> 0 \<Longrightarrow> cumulative sd n yr = 0"
  by (simp add: cumulative_def)

lemma cumulative_mono:
  assumes "wellFormed sd" "0 \<le> n" "a \<le> b"
  shows "cumulative sd n a \<le> cumulative sd n b"
  unfolding cumulative_def
  by (rule sum_mono2) (use assms in \<open>auto intro: yearTotal_nonneg\<close>)

lemma loopBody_fst: "fst (loopBody sd n yr st) = fst st + yearTotal sd n yr"
  by (simp add: loopBody_def Let_def yearTotal_def)

lemma loopBody_eq:
  assumes h: "1 \<le> yr" and f: "fst st = cumulative sd n (yr - 1)"
  shows "loopBody sd n yr st = (cumulative sd n yr, snd st @ [recordFor sd n yr])"
proof -
  have t: "fst (loopBody sd n yr st) = cumulative sd n yr"
    using h f by (simp add: loopBody_fst cumulative_step)
  have "snd (loopBody sd n yr st) =
        snd st @ [\<lparr>year = yr,
                  biomass_per_tree = Math_round (calculateBiomass yr sd * 10) / 10,
                  co2_per_tree = Math_round (calculateBiomass yr sd * carbonFraction sd * CO2_TO_CARBON_RATIO * 10) / 10,
                  total_co2 = Math_round (fst (loopBody sd n yr st) * 10) / 10\<rparr>]"
    unfolding loopBody_def Let_def fst_conv snd_conv ..
  then have "snd (loopBody sd n yr st) = snd st @ [recordFor sd n yr]"
    unfolding t recordFor_def .
  with t show ?thesis by (simp add: prod_eq_iff)
qed

text \<open>
  The loop started at year \<open>yr\<close> with the exact total through year \<open>yr - 1\<close> ends
  with the exact total through the last year and has pushed one record per year.
\<close>

lemma forLoop_char:
  "1 \<le> yr \<Longrightarrow> fst st = cumulative sd n (yr - 1) \<Longrightarrow>
   forLoop sd n N yr st = (cumulative sd n (max N (yr - 1)), snd st @ map (recordFor sd n) [yr..N])"
proof (induction sd n N yr st rule: forLoop.induct)
  case (1 sd n N yr st)
  show ?case
  proof (cases "yr \<le> N")
    case True
    have b: "loopBody sd n yr st = (cumulative sd n yr, snd st @ [recordFor sd n yr])"
      using "1.prems" by (rule loopBody_eq)
    have "forLoop sd n N (yr + 1) (loopBody sd n yr st) =
          (cumulative sd n (max N (yr + 1 - 1)), snd (loopBody sd n yr st) @ map (recordFor sd n) [yr + 1..N])"
      using "1.IH"[OF True] "1.prems" b by simp
    moreover have "[yr..N] = yr # [yr + 1..N]" using True by (simp add: upto_rec1)
    moreover have "max N (yr + 1 - 1) = max N (yr - 1)" using True by simp
    ultimately show ?thesis using True b by (subst forLoop.simps) simp
  next
    case False
    then have "max N (yr - 1) = yr - 1" by simp
    then show ?thesis using False "1.prems" by (subst forLoop.simps) (simp add: prod_eq_iff)
  qed
qed

lemma forLoop_from_1:
  "forLoop sd n N 1 (0, []) = (cumulative sd n N, map (recordFor sd n) [1..N])"
proof -
  have "forLoop sd n N 1 (0, []) =
        (cumulative sd n (max N (1 - 1)), snd (0::real, []::yearRecord list) @ map (recordFor sd n) [1..N])"
    by (rule forLoop_char) (simp_all add: cumulative_zero)
  moreover have "cumulative sd n (max N 0) = cumulative sd n N"
    by (cases "0 \<le> N") (simp_all add: max_def cumulative_zero)
  ultimately show ?thesis by simp
qed

lemma calculateCarbonSequestration_eq:
  assumes "treeSpecies sp = Some sd"
  shows "calculateCarbonSequestration sp n N =
           Inr \<lparr>success = True, species = name sd, num_trees = n, years = N,
                final_co2 = Math_round (cumulative sd n N),
                results = map (recordFor sd n) [1..N]\<rparr>"
  using assms by (simp add: calculateCarbonSequestration_def forLoop_from_1)

lemma total_co2_recordFor_mono:
  assumes "wellFormed sd" "0 \<le> n" "a \<le> b"
  shows "total_co2 (recordFor sd n a) \<le> total_co2 (recordFor sd n b)"
proof -
  have "cumulative sd n a * 10 \<le> cumulative sd n b * 10"
    using cumulative_mono [OF assms] by simp
  then have "Math_round (cumulative sd n a * 10) \<le> Math_round (cumulative sd n b * 10)"
    by (rule Math_round_mono)
  then show ?thesis by (simp add: recordFor_def)
qed

lemma capacity_tenths:
  assumes "treeSpecies sp = Some sd"
  shows "\<exists>k::int. maxBiomass sd * woodDensity sd * 10 = of_int k"
proof -
  have "sd = teak \<or> sd = pine \<or> sd = oak \<or> sd = eucalyptus"
    using assms by (rule treeSpecies_cases)
  moreover have "maxBiomass teak * woodDensity teak * 10 = of_int 5200"
    by (simp add: teak_def)
  moreover have "maxBiomass pine * woodDensity pine * 10 = of_int 2700"
    by (simp add: pine_def)
  moreover have "maxBiomass oak * woodDensity oak * 10 = of_int 6480"
    by (simp add: oak_def)
  moreover have "maxBiomass eucalyptus * woodDensity eucalyptus * 10 = of_int 2750"
    by (simp add: eucalyptus_def)
  ultimately show ?thesis by blast
qed

lemma biomass_per_tree_bounds:
  assumes sp: "treeSpecies sp = Some sd"
  shows "0 \<le> biomass_per_tree (recordFor sd n yr) \<and>
         biomass_per_tree (recordFor sd n yr) \<le> maxBiomass sd * woodDensity sd"
proof -
  have wf: "wellFormed sd" using sp by (rule treeSpecies_wellFormed)
  obtain k :: int where k: "maxBiomass sd * woodDensity sd * 10 = of_int k"
    using capacity_tenths [OF sp] by blast
  have "(0::real) \<le> calculateBiomass yr sd * 10" using calculateBiomass_nonneg [of yr sd] by simp
  then have "Math_round 0 \<le> Math_round (calculateBiomass yr sd * 10)" by (rule Math_round_mono)
  moreover have "Math_round 0 = 0" using Math_round_of_int [of 0] by simp
  ultimately have lo: "0 \<le> Math_round (calculateBiomass yr sd * 10)" by simp
  have "calculateBiomass yr sd * 10 \<le> maxBiomass sd * woodDensity sd * 10"
    using calculateBiomass_le [OF wf, of yr] by simp
  then have "Math_round (calculateBiomass yr sd * 10) \<le> Math_round (maxBiomass sd * woodDensity sd * 10)"
    by (rule Math_round_mono)
  then have hi: "Math_round (calculateBiomass yr sd * 10) \<le> maxBiomass sd * woodDensity sd * 10"
    by (simp add: k Math_round_of_int)
  show ?thesis using lo hi by (simp add: recordFor_def)
qed

lemma rounding_gap: "\<bar>Math_round t - Math_round (t * 10) / 10\<bar> \<le> 1 / 2"
proof -
  define a where "a = \<lfloor>t + 1 / 2\<rfloor>"
  define b where "b = \<lfloor>t * 10 + 1 / 2\<rfloor>"
  have a1: "of_int a \<le> t + 1 / 2" and a2: "t + 1 / 2 < of_int a + 1"
    unfolding a_def by linarith+
  have b1: "of_int b \<le> t * 10 + 1 / 2" and b2: "t * 10 + 1 / 2 < of_int b + 1"
    unfolding b_def by linarith+
  have "real_of_int (10 * a) < real_of_int (b + 6)" using a1 b2 by simp
  then have u: "10 * a \<le> b + 5" by linarith
  have "real_of_int b < real_of_int (10 * a + 6)" using b1 a2 by simp
  then have l: "b \<le> 10 * a + 5" by linarith
  have "\<bar>real_of_int a - real_of_int b / 10\<bar> \<le> 1 / 2"
  proof -
    have "real_of_int (10 * a) \<le> real_of_int (b + 5)" using u by (simp only: of_int_le_iff)
    then have p: "10 * real_of_int a \<le> real_of_int b + 5" by simp
    have "real_of_int b \<le> real_of_int (10 * a + 5)" using l by (simp only: of_int_le_iff)
    then have q: "real_of_int b \<le> 10 * real_of_int a + 5" by simp
    show ?thesis using p q by linarith
  qed
  then show ?thesis by (simp add: Math_round_def a_def b_def)
qed

subsection \<open>Splitting the loop at a year\<close>

lemma forLoop_split:
  assumes y1: "1 \<le> y" and yN: "y \<le> N"
  shows "forLoop sd n N 1 (0, []) =
           forLoop sd n N (y + 1) (loopBody sd n y (forLoop sd n (y - 1) 1 (0, [])))"
proof -
  let ?rec = "recordFor sd n"
  have A: "forLoop sd n (y - 1) 1 (0, []) = (cumulative sd n (y - 1), map ?rec [1..y - 1])"
    by (rule forLoop_from_1)
  have B: "loopBody sd n y (forLoop sd n (y - 1) 1 (0, [])) =
             (cumulative sd n y, map ?rec [1..y - 1] @ [?rec y])"
    using loopBody_eq [OF y1, of "forLoop sd n (y - 1) 1 (0, [])" sd n] by (simp add: A)
  have "forLoop sd n N (y + 1) (cumulative sd n y, map ?rec [1..y - 1] @ [?rec y]) =
          (cumulative sd n (max N (y + 1 - 1)),
           snd (cumulative sd n y, map ?rec [1..y - 1] @ [?rec y]) @ map ?rec [y + 1..N])"
    by (rule forLoop_char) (use y1 in simp_all)
  moreover have "max N (y + 1 - 1) = N" using yN by simp
  moreover have "[1..N] = [1..y - 1] @ y # [y + 1..N]" using y1 yN by (rule upto_split3)
  ultimately have "forLoop sd n N (y + 1) (cumulative sd n y, map ?rec [1..y - 1] @ [?rec y]) =
                   (cumulative sd n N, map ?rec [1..N])"
    by simp
  then show ?thesis unfolding B by (simp add: forLoop_from_1)
qed

subsection \<open>Validation\<close>

lemma validateInputs_in_range:
  assumes "sp \<noteq> []" "1 \<le> n" "n \<le> 100000" "1 \<le> N" "N \<le> 50"
  shows "validateInputs sp (Num n) (Num N) = None"
  using assms by (simp add: validateInputs_def)

lemma treeCount_boundaries:
  assumes sp: "treeSpecies sp = Some sd" and N: "1 \<le> N" "N \<le> 50"
  shows "(\<exists>r. calculateImpact sp (Num 1) (Num N) = Inr r) \<and>
         (\<exists>r. calculateImpact sp (Num 100000) (Num N) = Inr r) \<and>
         calculateImpact sp (Num 100001) (Num N) = Inl TreeCountOutOfRange \<and>
         calculateImpact sp (Num 0) (Num N) = Inl MissingField"
proof -
  have ne: "sp \<noteq> []" using sp by (rule treeSpecies_nonempty)
  have a: "validateInputs sp (Num 1) (Num N) = None"
    and b: "validateInputs sp (Num 100000) (Num N) = None"
    using ne N by (simp_all add: validateInputs_in_range)
  have c: "validateInputs sp (Num 100001) (Num N) = Some TreeCountOutOfRange"
    using ne N by (simp add: validateInputs_def)
  have d: "validateInputs sp (Num 0) (Num N) = Some MissingField"
    by (simp add: validateInputs_def)
  show ?thesis
    by (simp add: a b c d calculateCarbonSequestration_eq [OF sp])
qed

subsection \<open>The pine scenario\<close>

lemma exp_minus_three_tenths:
  "7 / 10 \<le> exp (- (3 / 10) :: real) \<and> exp (- (3 / 10) :: real) \<le> 10 / 13"
proof -
  have lo: "7 / 10 \<le> exp (- (3 / 10) :: real)"
    using exp_ge_add_one_self [of "- (3 / 10) :: real"] by simp
  have "13 / 10 \<le> exp (3 / 10 :: real)"
    using exp_ge_add_one_self [of "3 / 10 :: real"] by simp
  then have "inverse (exp (3 / 10 :: real)) \<le> inverse (13 / 10)"
    by (intro le_imp_inverse_le) simp_all
  then have hi: "exp (- (3 / 10) :: real) \<le> 10 / 13"
    by (simp add: exp_minus)
  from lo hi show ?thesis ..
qed

lemma growthDenominator_pine_1: "growthDenominator pine 1 = 1 + 5999 * exp (- (3 / 10))"
  by (simp add: growthDenominator_def pine_def)

lemma calculateBiomass_pine_1:
  "calculateBiomass 1 pine = 600 / (1 + 5999 * exp (- (3 / 10))) * (45 / 100)"
proof -
  let ?d = "1 + 5999 * exp (- (3 / 10) :: real)"
  have d1: "1 \<le> ?d" by simp
  have dpos: "0 < ?d" by (rule add_pos_nonneg) simp_all
  have "600 \<le> 600 * ?d" using d1 by simp
  then have "600 / ?d \<le> 600" using dpos by (simp only: pos_divide_le_eq)
  then have m: "min (600 / ?d) 600 = 600 / ?d" by (rule min_absorb1)
  have "0 \<le> 600 / ?d" using dpos by (intro divide_nonneg_pos) simp_all
  then have nn: "0 \<le> 600 / ?d * (45 / 100)" by simp
  have "calculateBiomass 1 pine = max (min (600 / ?d) 600 * (45 / 100)) 0"
    unfolding calculateBiomass_unfold growthDenominator_pine_1 by (simp add: pine_def)
  then show ?thesis using m nn by simp
qed

lemma calculateBiomass_pine_1_bounds:
  "0.058 < calculateBiomass 1 pine \<and> calculateBiomass 1 pine < 0.065"
proof -
  let ?e = "exp (- (3 / 10) :: real)"
  let ?d = "1 + 5999 * ?e"
  have e: "7 / 10 \<le> ?e" "?e \<le> 10 / 13" using exp_minus_three_tenths by simp_all
  have dlo: "4200 < ?d" using e(1) by simp
  have dhi: "?d < 4616" using e(2) by simp
  have pos: "0 < ?d" using dlo by simp
  have "0.058 * ?d < 270" using dhi by simp
  then have lo: "0.058 < 270 / ?d" using pos by (simp add: pos_less_divide_eq)
  have "270 < 0.065 * ?d" using dlo by simp
  then have hi: "270 / ?d < 0.065" using pos by (simp add: pos_divide_less_eq)
  have "600 / ?d * (45 / 100) = (600 * (45 / 100)) / ?d" by (rule times_divide_eq_left)
  also have "\<dots> = 270 / ?d" by simp
  finally have "calculateBiomass 1 pine = 270 / ?d" by (simp only: calculateBiomass_pine_1)
  with lo hi show ?thesis by simp
qed

lemma biomass_per_tree_pine_1:
  "Math_round (calculateBiomass 1 pine * 10) / 10 = 1 / 10"
proof -
  have b: "0.058 < calculateBiomass 1 pine" "calculateBiomass 1 pine < 0.065"
    using calculateBiomass_pine_1_bounds by simp_all
  have "\<lfloor>calculateBiomass 1 pine * 10 + 1 / 2\<rfloor> = 1"
    using b by (intro floor_unique) simp_all
  then show ?thesis by (simp add: Math_round_def)
qed

lemma results_pine_first:
  "results (projr (calculateCarbonSequestration ''pine'' 1000 3)) ! 0 = recordFor pine 1000 1"
proof -
  have "[1..3::int] = 1 # [2..3]" by (simp add: upto_rec1)
  then show ?thesis
    by (simp add: calculateCarbonSequestration_eq [OF treeSpecies_pine])
qed

lemma results_pine_length:
  "calculateCarbonSequestration ''pine'' 1000 3 = Inr r \<Longrightarrow> length (results r) = 3"
  by (auto simp: calculateCarbonSequestration_eq [OF treeSpecies_pine])

subsection \<open>Claims about the growth curve and the aggregation\<close>

text \<open>
  Claim C1. For every species profile of the table and every integer age of at least
  one year, \<open>calculateBiomass\<close> returns what the specification's \<open>biomassAtAge\<close>
  prescribes: the logistic value with \<open>A = (maxBiomass - 0.1) / 0.1\<close>, clamped to
  \<open>maxBiomass\<close> before the multiplication by \<open>woodDensity\<close>, and floored at zero
  after it.
\<close>

theorem calculateBiomass_refines_spec:
  assumes "treeSpecies sp = Some profile" and "1 \<le> ageYears"
  shows "calculateBiomass ageYears profile = biomassAtAge_spec ageYears profile"
  unfolding calculateBiomass_def biomassAtAge_spec_def Let_def ..

text \<open>The statement of C1 at pine, age 1.\<close>

theorem calculateBiomass_refines_spec_witness:
  "treeSpecies ''pine'' = Some pine \<and> (1::int) \<le> 1 \<and>
   calculateBiomass 1 pine = biomassAtAge_spec 1 pine"
  using calculateBiomass_refines_spec [of "''pine''" pine 1] by (simp add: treeSpecies_def)

text \<open>
  Claim C2. For every valid request and every year \<open>y\<close> from \<open>1\<close> to the duration,
  \<open>calculateCarbonSequestration\<close> returns a result whose records are those pushed by
  the loop and whose \<open>final_co2\<close> is the rounded final value of \<open>totalCO2\<close>. The run
  of the loop is: the passes for the years before \<open>y\<close>, then the pass for \<open>y\<close>, then
  the remaining passes. The pass for \<open>y\<close> adds \<open>(co2PerTree * numTrees) / 1000\<close> with
  \<open>co2PerTree = calculateBiomass y sd * carbonFraction sd * 3.67\<close> to the running
  total and pushes the record found at position \<open>y\<close> of the result: its
  \<open>co2_per_tree\<close> is \<open>co2PerTree\<close> rounded to one decimal, and its \<open>total_co2\<close> is
  the running total before the pass plus this contribution, rounded to one decimal. The
  total after the last pass, of which \<open>final_co2\<close> is the rounding, is the sum of the
  contributions of all years; and the factor is the one constant
  \<open>CO2_TO_CARBON_RATIO = 3.67\<close>, which no species profile overrides.
\<close>

theorem per_year_aggregation:
  assumes "validRequest sp sd numTrees nYears" and "y \<in> {1..nYears}"
  shows "\<exists>r. calculateCarbonSequestration sp numTrees nYears = Inr r \<and>
           results r = snd (forLoop sd numTrees nYears 1 (0, [])) \<and>
           final_co2 r = Math_round (fst (forLoop sd numTrees nYears 1 (0, []))) \<and>
           forLoop sd numTrees nYears 1 (0, []) =
             forLoop sd numTrees nYears (y + 1)
               (loopBody sd numTrees y (forLoop sd numTrees (y - 1) 1 (0, []))) \<and>
           fst (loopBody sd numTrees y (forLoop sd numTrees (y - 1) 1 (0, []))) =
             fst (forLoop sd numTrees (y - 1) 1 (0, [])) +
             (calculateBiomass y sd * carbonFraction sd * 3.67 * real_of_int numTrees) / 1000 \<and>
           co2_per_tree (last (snd (loopBody sd numTrees y (forLoop sd numTrees (y - 1) 1 (0, []))))) =
             Math_round (calculateBiomass y sd * carbonFraction sd * 3.67 * 10) / 10 \<and>
           results r ! nat (y - 1) =
             last (snd (loopBody sd numTrees y (forLoop sd numTrees (y - 1) 1 (0, [])))) \<and>
           co2_per_tree (results r ! nat (y - 1)) =
             Math_round (calculateBiomass y sd * carbonFraction sd * 3.67 * 10) / 10 \<and>
           total_co2 (results r ! nat (y - 1)) =
             Math_round
               ((fst (forLoop sd numTrees (y - 1) 1 (0, [])) +
                 (calculateBiomass y sd * carbonFraction sd * 3.67 * real_of_int numTrees) / 1000) * 10) / 10 \<and>
           fst (forLoop sd numTrees nYears 1 (0, [])) =
             (\<Sum>j = 1..nYears.
                (calculateBiomass j sd * carbonFraction sd * 3.67 * real_of_int numTrees) / 1000) \<and>
           final_co2 r =
             Math_round (\<Sum>j = 1..nYears.
                (calculateBiomass j sd * carbonFraction sd * 3.67 * real_of_int numTrees) / 1000) \<and>
           CO2_TO_CARBON_RATIO = 3.67"
proof -
  have sp: "treeSpecies sp = Some sd" using assms(1) by (simp add: validRequest_def)
  have y1: "1 \<le> y" and yN: "y \<le> nYears" using assms(2) by simp_all
  let ?st = "forLoop sd numTrees (y - 1) 1 (0, [])"
  let ?all = "forLoop sd numTrees nYears 1 (0, [])"
  define r where "r = \<lparr>success = True, species = name sd, num_trees = numTrees, years = nYears,
                         final_co2 = Math_round (fst ?all), results = snd ?all\<rparr>"
  have ret: "calculateCarbonSequestration sp numTrees nYears = Inr r"
    unfolding calculateCarbonSequestration_def r_def Let_def by (simp add: sp)
  have res: "results r = snd ?all" and fin: "final_co2 r = Math_round (fst ?all)"
    by (simp_all add: r_def)
  have split: "?all = forLoop sd numTrees nYears (y + 1) (loopBody sd numTrees y ?st)"
    using y1 yN by (rule forLoop_split)
  have "fst (loopBody sd numTrees y ?st) = fst ?st + yearTotal sd numTrees y"
    by (rule loopBody_fst)
  then have add: "fst (loopBody sd numTrees y ?st) =
      fst ?st + (calculateBiomass y sd * carbonFraction sd * 3.67 * real_of_int numTrees) / 1000"
    by (simp only: yearTotal_def CO2_TO_CARBON_RATIO_def)
  have fst_st: "fst ?st = cumulative sd numTrees (y - 1)" by (simp add: forLoop_from_1)
  then have body: "loopBody sd numTrees y ?st =
               (cumulative sd numTrees y, snd ?st @ [recordFor sd numTrees y])"
    by (rule loopBody_eq [OF y1])
  then have lastrec: "last (snd (loopBody sd numTrees y ?st)) = recordFor sd numTrees y" by simp
  have "co2_per_tree (recordFor sd numTrees y) =
      Math_round (calculateBiomass y sd * carbonFraction sd * CO2_TO_CARBON_RATIO * 10) / 10"
    by (simp add: recordFor_def)
  then have co2: "co2_per_tree (recordFor sd numTrees y) =
      Math_round (calculateBiomass y sd * carbonFraction sd * 3.67 * 10) / 10"
    by (simp only: CO2_TO_CARBON_RATIO_def)
  have "nat (y - 1) < length [1..nYears]" using y1 yN by simp
  then have "map (recordFor sd numTrees) [1..nYears] ! nat (y - 1) =
             recordFor sd numTrees ([1..nYears] ! nat (y - 1))"
    by (rule nth_map)
  moreover have "[1..nYears] ! nat (y - 1) = y" using y1 yN by simp
  ultimately have nth: "results r ! nat (y - 1) = recordFor sd numTrees y"
    by (simp add: res forLoop_from_1)
  have "cumulative sd numTrees y = fst ?st + yearTotal sd numTrees y"
    using cumulative_step [OF y1, of sd numTrees] fst_st by simp
  then have cum: "cumulative sd numTrees y =
      fst ?st + (calculateBiomass y sd * carbonFraction sd * 3.67 * real_of_int numTrees) / 1000"
    by (simp only: yearTotal_def CO2_TO_CARBON_RATIO_def)
  have "total_co2 (recordFor sd numTrees y) = Math_round (cumulative sd numTrees y * 10) / 10"
    by (simp add: recordFor_def)
  then have tot: "total_co2 (results r ! nat (y - 1)) =
      Math_round ((fst ?st +
        (calculateBiomass y sd * carbonFraction sd * 3.67 * real_of_int numTrees) / 1000) * 10) / 10"
    by (simp only: nth cum)
  have "fst ?all = cumulative sd numTrees nYears" by (simp add: forLoop_from_1)
  then have total: "fst ?all =
      (\<Sum>j = 1..nYears. (calculateBiomass j sd * carbonFraction sd * 3.67 * real_of_int numTrees) / 1000)"
    by (simp only: cumulative_def yearTotal_def CO2_TO_CARBON_RATIO_def)
  have fin2: "final_co2 r =
      Math_round (\<Sum>j = 1..nYears. (calculateBiomass j sd * carbonFraction sd * 3.67 * real_of_int numTrees) / 1000)"
    by (simp only: fin total)
  have c1: "co2_per_tree (last (snd (loopBody sd numTrees y ?st))) =
      Math_round (calculateBiomass y sd * carbonFraction sd * 3.67 * 10) / 10"
    by (simp only: lastrec co2)
  have c2: "results r ! nat (y - 1) = last (snd (loopBody sd numTrees y ?st))"
    by (simp only: nth lastrec)
  have c3: "co2_per_tree (results r ! nat (y - 1)) =
      Math_round (calculateBiomass y sd * carbonFraction sd * 3.67 * 10) / 10"
    by (simp only: nth co2)
  have k: "CO2_TO_CARBON_RATIO = 3.67" by (rule CO2_TO_CARBON_RATIO_def)
  show ?thesis
    by (rule exI [of _ r]) (intro conjI ret res fin split add c1 c2 c3 tot total fin2 k)
qed

text \<open>The statement of C2 at pine, 1000 trees, 3 years, year 2.\<close>

theorem per_year_aggregation_witness:
  "validRequest ''pine'' pine 1000 3 \<and> (2::int) \<in> {1..3} \<and>
   (\<exists>r. calculateCarbonSequestration ''pine'' 1000 3 = Inr r \<and>
        results r = snd (forLoop pine 1000 3 1 (0, [])) \<and>
        final_co2 r = Math_round (fst (forLoop pine 1000 3 1 (0, []))) \<and>
        co2_per_tree (results r ! nat (2 - 1)) =
          Math_round (calculateBiomass 2 pine * carbonFraction pine * 3.67 * 10) / 10 \<and>
        total_co2 (results r ! nat (2 - 1)) =
          Math_round
            ((fst (forLoop pine 1000 (2 - 1) 1 (0, [])) +
              (calculateBiomass 2 pine * carbonFraction pine * 3.67 * real_of_int 1000) / 1000) * 10) / 10)"
proof -
  have y: "(2::int) \<in> {1..3}" by simp
  show ?thesis
    using per_year_aggregation [OF validRequest_pine y] validRequest_pine y by blast
qed

text \<open>
  Claim C3. For every valid request, \<open>calculateCarbonSequestration\<close> returns a result
  whose list of records has exactly as many entries as the duration, and the \<open>year\<close>
  fields are \<open>1, 2, ..., nYears\<close> in this order.
\<close>

theorem year_fields:
  assumes "validRequest sp sd numTrees nYears"
  shows "\<exists>r. calculateCarbonSequestration sp numTrees nYears = Inr r \<and>
             length (results r) = nat nYears \<and>
             map year (results r) = [1..nYears]"
proof -
  have sp: "treeSpecies sp = Some sd" using assms by (simp add: validRequest_def)
  have "map year (map (recordFor sd numTrees) [1..nYears]) = [1..nYears]"
    by (simp add: recordFor_def comp_def)
  then show ?thesis
    by (simp add: calculateCarbonSequestration_eq [OF sp])
qed

text \<open>The statement of C3 at pine, 1000 trees, 3 years.\<close>

theorem year_fields_witness:
  "validRequest ''pine'' pine 1000 3 \<and>
   (\<exists>r. calculateCarbonSequestration ''pine'' 1000 3 = Inr r \<and>
        length (results r) = nat 3 \<and> map year (results r) = [1..3])"
  using year_fields [of "''pine''" pine 1000 3] validRequest_pine by simp

text \<open>
  Claim C4. For every valid request, the \<open>total_co2\<close> values of the records of the
  result are non-decreasing: each record's value is at most that of the next record,
  and the whole sequence is sorted.
\<close>

theorem cumulative_nondecreasing:
  assumes "validRequest sp sd numTrees nYears"
  shows "\<exists>r. calculateCarbonSequestration sp numTrees nYears = Inr r \<and>
             (\<forall>i. Suc i < length (results r) \<longrightarrow>
                  total_co2 (results r ! i) \<le> total_co2 (results r ! Suc i)) \<and>
             sorted (map total_co2 (results r))"
proof -
  have sp: "treeSpecies sp = Some sd" and n: "0 \<le> numTrees"
    using assms by (simp_all add: validRequest_def)
  have wf: "wellFormed sd" using sp by (rule treeSpecies_wellFormed)
  let ?rs = "map (recordFor sd numTrees) [1..nYears]"
  have nth: "?rs ! i = recordFor sd numTrees (1 + int i)" if "i < length ?rs" for i
    using that by simp
  have step: "total_co2 (?rs ! i) \<le> total_co2 (?rs ! j)" if "i \<le> j" "j < length ?rs" for i j
  proof -
    have "total_co2 (recordFor sd numTrees (1 + int i)) \<le> total_co2 (recordFor sd numTrees (1 + int j))"
      using wf n by (rule total_co2_recordFor_mono) (use that in simp)
    then show ?thesis using that nth [of i] nth [of j] by simp
  qed
  have "sorted (map total_co2 ?rs)"
    unfolding sorted_iff_nth_mono using step by (simp del: map_map)
  moreover have "\<forall>i. Suc i < length ?rs \<longrightarrow> total_co2 (?rs ! i) \<le> total_co2 (?rs ! Suc i)"
  proof (intro allI impI)
    fix i assume "Suc i < length ?rs"
    then show "total_co2 (?rs ! i) \<le> total_co2 (?rs ! Suc i)"
      by (intro step) simp_all
  qed
  ultimately show ?thesis
    by (simp add: calculateCarbonSequestration_eq [OF sp] del: map_map)
qed

text \<open>The statement of C4 at pine, 1000 trees, 3 years: the three records in turn.\<close>

theorem cumulative_nondecreasing_witness:
  "validRequest ''pine'' pine 1000 3 \<and>
   (\<exists>r. calculateCarbonSequestration ''pine'' 1000 3 = Inr r \<and>
        total_co2 (results r ! 0) \<le> total_co2 (results r ! 1) \<and>
        total_co2 (results r ! 1) \<le> total_co2 (results r ! 2) \<and>
        sorted (map total_co2 (results r)))"
proof -
  obtain r where r: "calculateCarbonSequestration ''pine'' 1000 3 = Inr r"
    and st: "\<forall>i. Suc i < length (results r) \<longrightarrow>
                total_co2 (results r ! i) \<le> total_co2 (results r ! Suc i)"
    and so: "sorted (map total_co2 (results r))"
    using cumulative_nondecreasing [OF validRequest_pine] by blast
  have len: "length (results r) = 3" using r by (rule results_pine_length)
  have a: "total_co2 (results r ! 0) \<le> total_co2 (results r ! 1)"
    using st [rule_format, of 0] len by simp
  have b: "total_co2 (results r ! 1) \<le> total_co2 (results r ! 2)"
    using st [rule_format, of 1] len by (simp add: numeral_2_eq_2)
  show ?thesis using validRequest_pine r a b so by blast
qed

text \<open>
  Claim C5. For every species profile of the table, \<open>calculateBiomass\<close> is
  non-decreasing in the age over \<open>1..50\<close> (the value at \<open>a\<close> is at most the value at
  \<open>a + 1\<close> for \<open>a\<close> in \<open>1..49\<close>) and never exceeds
  \<open>maxBiomass * woodDensity\<close>; and in the result of every valid request, the
  \<open>biomass_per_tree\<close> of every record, which is that value rounded to one decimal,
  lies between \<open>0\<close> and \<open>maxBiomass * woodDensity\<close>.
\<close>

theorem biomass_monotone_and_bounded:
  assumes "validRequest sp sd numTrees nYears"
  shows "(\<forall>a\<in>{1..49}. calculateBiomass a sd \<le> calculateBiomass (a + 1) sd) \<and>
         (\<forall>a\<in>{1..50}. calculateBiomass a sd \<le> maxBiomass sd * woodDensity sd) \<and>
         (\<exists>r. calculateCarbonSequestration sp numTrees nYears = Inr r \<and>
              (\<forall>rec\<in>set (results r).
                 0 \<le> biomass_per_tree rec \<and>
                 biomass_per_tree rec \<le> maxBiomass sd * woodDensity sd))"
proof -
  have sp: "treeSpecies sp = Some sd" using assms by (simp add: validRequest_def)
  have wf: "wellFormed sd" using sp by (rule treeSpecies_wellFormed)
  have mono: "\<forall>a\<in>{1..49}. calculateBiomass a sd \<le> calculateBiomass (a + 1) sd"
    using calculateBiomass_mono [OF wf] by simp
  have le: "\<forall>a\<in>{1..50}. calculateBiomass a sd \<le> maxBiomass sd * woodDensity sd"
    using calculateBiomass_le [OF wf] by simp
  have "\<forall>rec\<in>set (map (recordFor sd numTrees) [1..nYears]).
          0 \<le> biomass_per_tree rec \<and> biomass_per_tree rec \<le> maxBiomass sd * woodDensity sd"
    using biomass_per_tree_bounds [OF sp] by auto
  then have "\<exists>r. calculateCarbonSequestration sp numTrees nYears = Inr r \<and>
              (\<forall>rec\<in>set (results r).
                 0 \<le> biomass_per_tree rec \<and>
                 biomass_per_tree rec \<le> maxBiomass sd * woodDensity sd)"
    by (simp add: calculateCarbonSequestration_eq [OF sp])
  with mono le show ?thesis by blast
qed

text \<open>The statement of C5 at pine, 1000 trees, 3 years: ages 1 and 50, first record.\<close>

theorem biomass_monotone_and_bounded_witness:
  "validRequest ''pine'' pine 1000 3 \<and>
   calculateBiomass 1 pine \<le> calculateBiomass (1 + 1) pine \<and>
   calculateBiomass 50 pine \<le> maxBiomass pine * woodDensity pine \<and>
   (\<exists>r. calculateCarbonSequestration ''pine'' 1000 3 = Inr r \<and>
        0 \<le> biomass_per_tree (results r ! 0) \<and>
        biomass_per_tree (results r ! 0) \<le> maxBiomass pine * woodDensity pine)"
proof -
  have m: "\<forall>a\<in>{1..49}. calculateBiomass a pine \<le> calculateBiomass (a + 1) pine"
    and u: "\<forall>a\<in>{1..50}. calculateBiomass a pine \<le> maxBiomass pine * woodDensity pine"
    using biomass_monotone_and_bounded [OF validRequest_pine] by blast+
  obtain r where r: "calculateCarbonSequestration ''pine'' 1000 3 = Inr r"
    and bd: "\<forall>rec\<in>set (results r).
               0 \<le> biomass_per_tree rec \<and> biomass_per_tree rec \<le> maxBiomass pine * woodDensity pine"
    using biomass_monotone_and_bounded [OF validRequest_pine] by blast
  have "length (results r) = 3" using r by (rule results_pine_length)
  then have mem: "results r ! 0 \<in> set (results r)" by (intro nth_mem) simp
  have a: "calculateBiomass 1 pine \<le> calculateBiomass (1 + 1) pine"
    using m by (rule bspec) simp
  have b: "calculateBiomass 50 pine \<le> maxBiomass pine * woodDensity pine"
    using u by (rule bspec) simp
  show ?thesis using validRequest_pine a b r bd [rule_format, OF mem] by blast
qed

text \<open>
  Claim C6. For every valid request, the \<open>total_co2\<close> of the record of year \<open>k\<close> is
  the exact running total through year \<open>k\<close> (\<open>cumulative\<close>, the sum of the unrounded
  yearly contributions) rounded to one decimal, so no rounded figure enters the running
  total; \<open>final_co2\<close> is the exact running total after the last year rounded to a
  whole number; and the two displayed totals, \<open>final_co2\<close> and the \<open>total_co2\<close> of the
  last record, differ by at most \<open>0.5\<close>.
\<close>

theorem displayed_totals:
  assumes "validRequest sp sd numTrees nYears"
  shows "\<exists>r. calculateCarbonSequestration sp numTrees nYears = Inr r \<and>
             (\<forall>k\<in>{1..nYears}.
                total_co2 (results r ! nat (k - 1)) = Math_round (cumulative sd numTrees k * 10) / 10) \<and>
             final_co2 r = Math_round (cumulative sd numTrees nYears) \<and>
             \<bar>final_co2 r - total_co2 (last (results r))\<bar> \<le> 1 / 2"
proof -
  have sp: "treeSpecies sp = Some sd" and N: "1 \<le> nYears"
    using assms by (simp_all add: validRequest_def)
  let ?rs = "map (recordFor sd numTrees) [1..nYears]"
  have nth: "total_co2 (?rs ! nat (k - 1)) = Math_round (cumulative sd numTrees k * 10) / 10"
    if "k \<in> {1..nYears}" for k
  proof -
    have "nat (k - 1) < length [1..nYears]" using that by simp
    then have "?rs ! nat (k - 1) = recordFor sd numTrees ([1..nYears] ! nat (k - 1))"
      by (rule nth_map)
    moreover have "[1..nYears] ! nat (k - 1) = k" using that by simp
    ultimately show ?thesis by (simp add: recordFor_def)
  qed
  have "[1..nYears] = [1..nYears - 1] @ [nYears]" using N by (rule upto_rec2)
  then have "?rs = map (recordFor sd numTrees) [1..nYears - 1] @ [recordFor sd numTrees nYears]"
    by (metis list.simps(8,9) map_append)
  then have "last ?rs = recordFor sd numTrees nYears" by simp
  then have lastv: "total_co2 (last ?rs) = Math_round (cumulative sd numTrees nYears * 10) / 10"
    by (simp add: recordFor_def)
  have gap: "\<bar>Math_round (cumulative sd numTrees nYears) - total_co2 (last ?rs)\<bar> \<le> 1 / 2"
    unfolding lastv by (rule rounding_gap)
  show ?thesis
    using nth gap by (simp add: calculateCarbonSequestration_eq [OF sp] del: map_map)
qed

text \<open>The statement of C6 at pine, 1000 trees, 3 years: the record of year 2.\<close>

theorem displayed_totals_witness:
  "validRequest ''pine'' pine 1000 3 \<and>
   (\<exists>r. calculateCarbonSequestration ''pine'' 1000 3 = Inr r \<and>
        total_co2 (results r ! 1) = Math_round (cumulative pine 1000 2 * 10) / 10 \<and>
        final_co2 r = Math_round (cumulative pine 1000 3) \<and>
        \<bar>final_co2 r - total_co2 (last (results r))\<bar> \<le> 1 / 2)"
proof -
  obtain r where r: "calculateCarbonSequestration ''pine'' 1000 3 = Inr r"
    and t: "\<forall>k\<in>{1..3}. total_co2 (results r ! nat (k - 1)) =
                          Math_round (cumulative pine 1000 k * 10) / 10"
    and f: "final_co2 r = Math_round (cumulative pine 1000 3)"
    and g: "\<bar>final_co2 r - total_co2 (last (results r))\<bar> \<le> 1 / 2"
    using displayed_totals [OF validRequest_pine] by blast
  have "(2::int) \<in> {1..3}" by simp
  with t have "total_co2 (results r ! nat (2 - 1)) = Math_round (cumulative pine 1000 2 * 10) / 10"
    by (rule bspec)
  then have "total_co2 (results r ! 1) = Math_round (cumulative pine 1000 2 * 10) / 10" by simp
  then show ?thesis using validRequest_pine r f g by blast
qed

text \<open>
  Claim C7, at its failing input. The tree counts \<open>1\<close> and \<open>100000\<close> are accepted and
  \<open>100001\<close> is rejected with the out-of-range message, as is \<open>-1\<close>. The tree count
  \<open>0\<close> never reaches the range guard \<^verbatim>\<open>numTrees < 1\<close>: zero is falsy, so the guard
  \<^verbatim>\<open>!numTrees\<close> before it fires and the message is the one for a missing field.
\<close>

theorem treeCount_zero_is_missing_field:
  "calculateImpact ''pine'' (Num 0) (Num 10) = Inl MissingField \<and>
   errorMessage MissingField = ''Please fill in all fields'' \<and>
   calculateImpact ''pine'' (Num (- 1)) (Num 10) = Inl TreeCountOutOfRange \<and>
   calculateImpact ''pine'' (Num 100001) (Num 10) = Inl TreeCountOutOfRange \<and>
   errorMessage TreeCountOutOfRange = ''Number of trees must be between 1 and 100,000'' \<and>
   \<not> isl (calculateImpact ''pine'' (Num 1) (Num 10)) \<and>
   \<not> isl (calculateImpact ''pine'' (Num 100000) (Num 10))"
  by (simp add: validateInputs_def calculateCarbonSequestration_eq [OF treeSpecies_pine])

text \<open>
  Claim C8, as amended. For a non-empty species identifier that is neither a key of the
  table nor a name inherited from \<^verbatim>\<open>Object.prototype\<close>, with tree count and duration in
  range, no guard of the validation fires; \<open>calculateCarbonSequestration\<close> throws a
  \<^verbatim>\<open>TypeError\<close> at its first access to the missing profile, so no biomass or CO2 value is
  computed and no result is produced; and the \<^verbatim>\<open>catch\<close> clause reports the generic
  failure message.
\<close>

theorem unknown_species_generic_failure:
  assumes "treeSpecies sp = None" and "sp \<noteq> []" and "sp \<notin> set objectPrototypeKeys"
    and "1 \<le> numTrees" "numTrees \<le> 100000" "1 \<le> nYears" "nYears \<le> 50"
  shows "validateInputs sp (Num numTrees) (Num nYears) = None \<and>
         calculateCarbonSequestration sp numTrees nYears = Inl TypeError \<and>
         calculateImpact sp (Num numTrees) (Num nYears) = Inl CalculationFailed \<and>
         errorMessage CalculationFailed = ''Failed to calculate impact. Please try again.''"
proof -
  have v: "validateInputs sp (Num numTrees) (Num nYears) = None"
    using assms(2,4-7) by (rule validateInputs_in_range)
  have c: "calculateCarbonSequestration sp numTrees nYears = Inl TypeError"
    using assms(1) by (simp add: calculateCarbonSequestration_def)
  show ?thesis by (simp add: v c)
qed

text \<open>The amended statement of C8 at the identifier baobab, 1000 trees, 3 years.\<close>

theorem unknown_species_generic_failure_witness:
  "treeSpecies ''baobab'' = None \<and> ''baobab'' \<noteq> [] \<and> ''baobab'' \<notin> set objectPrototypeKeys \<and>
   validateInputs ''baobab'' (Num 1000) (Num 3) = None \<and>
   calculateCarbonSequestration ''baobab'' 1000 3 = Inl TypeError \<and>
   calculateImpact ''baobab'' (Num 1000) (Num 3) = Inl CalculationFailed"
proof -
  have a: "treeSpecies ''baobab'' = None" by (simp add: treeSpecies_def)
  have b: "''baobab'' \<noteq> []" by simp
  have c: "''baobab'' \<notin> set objectPrototypeKeys" by (simp add: objectPrototypeKeys_def)
  show ?thesis
    using unknown_species_generic_failure [OF a b c, of 1000 3] a b c by simp
qed

text \<open>
  Claim C8 as stated fails at baobab: the specification's unknown-species error is one
  of the errors detected before the model is invoked, but the validation reports no
  error there; the model is invoked, throws, and the error shown is the generic one of
  the \<^verbatim>\<open>catch\<close> clause.
\<close>

theorem unknown_species_counterexample:
  "validateInputs ''baobab'' (Num 1000) (Num 3) = None \<and>
   calculateCarbonSequestration ''baobab'' 1000 3 = Inl TypeError \<and>
   calculateImpact ''baobab'' (Num 1000) (Num 3) = Inl CalculationFailed"
  by (simp add: validateInputs_def calculateCarbonSequestration_def treeSpecies_def)

text \<open>
  Claim C9, as amended. For pine with 1000 trees and 3 years a result is returned, its
  first record is that of year 1, and the unrounded biomass per tree of year 1 equals
  \<open>600 / (1 + 5999 * exp (- 0.30)) * 0.45\<close>. This value lies strictly between
  \<open>0.058\<close> and \<open>0.065\<close> kg, so the \<open>biomass_per_tree\<close> of the record, its rounding to
  one decimal, is \<open>0.1\<close>.
\<close>

theorem pine_year_1_biomass:
  "\<not> isl (calculateCarbonSequestration ''pine'' 1000 3) \<and>
   year (results (projr (calculateCarbonSequestration ''pine'' 1000 3)) ! 0) = 1 \<and>
   calculateBiomass 1 pine = 600 / (1 + 5999 * exp (- 0.30)) * 0.45 \<and>
   0.058 < calculateBiomass 1 pine \<and> calculateBiomass 1 pine < 0.065 \<and>
   biomass_per_tree (results (projr (calculateCarbonSequestration ''pine'' 1000 3)) ! 0) =
     Math_round (calculateBiomass 1 pine * 10) / 10 \<and>
   biomass_per_tree (results (projr (calculateCarbonSequestration ''pine'' 1000 3)) ! 0) = 0.1"
proof -
  have a: "\<not> isl (calculateCarbonSequestration ''pine'' 1000 3)"
    by (simp add: calculateCarbonSequestration_eq [OF treeSpecies_pine])
  have b: "year (results (projr (calculateCarbonSequestration ''pine'' 1000 3)) ! 0) = 1"
    unfolding results_pine_first by (simp add: recordFor_def)
  have c: "calculateBiomass 1 pine = 600 / (1 + 5999 * exp (- 0.30)) * 0.45"
    using calculateBiomass_pine_1 by simp
  have d: "biomass_per_tree (results (projr (calculateCarbonSequestration ''pine'' 1000 3)) ! 0) =
             Math_round (calculateBiomass 1 pine * 10) / 10"
    unfolding results_pine_first by (simp add: recordFor_def)
  have e: "biomass_per_tree (results (projr (calculateCarbonSequestration ''pine'' 1000 3)) ! 0) = 0.1"
    unfolding d biomass_per_tree_pine_1 by simp
  show ?thesis using a b c d e calculateBiomass_pine_1_bounds by blast
qed

text \<open>
  Claim C9 as stated fails: the year-1 biomass per tree, rounded to one decimal, is not
  \<open>1.2\<close>.
\<close>

theorem pine_year_1_biomass_counterexample:
  "biomass_per_tree (results (projr (calculateCarbonSequestration ''pine'' 1000 3)) ! 0) \<noteq> 1.2"
proof -
  have "biomass_per_tree (results (projr (calculateCarbonSequestration ''pine'' 1000 3)) ! 0) = 1 / 10"
    unfolding results_pine_first by (simp add: recordFor_def biomass_per_tree_pine_1)
  then show ?thesis by simp
qed

text \<open>
  Claim C10. For a fixed supported species and duration, the results for two tree
  counts \<open>m\<close> and \<open>n\<close> agree on the \<open>year\<close>, \<open>biomass_per_tree\<close> and
  \<open>co2_per_tree\<close> field of every record, and on \<open>success\<close>, \<open>species\<close> and
  \<open>years\<close>: the tree count reaches only \<open>total_co2\<close>, \<open>final_co2\<close> and
  \<open>num_trees\<close>.
\<close>

theorem per_tree_independent_of_treeCount:
  assumes "validRequest sp sd m nYears" and "validRequest sp sd n nYears"
  shows "\<exists>r1 r2. calculateCarbonSequestration sp m nYears = Inr r1 \<and>
                 calculateCarbonSequestration sp n nYears = Inr r2 \<and>
                 map year (results r1) = map year (results r2) \<and>
                 map biomass_per_tree (results r1) = map biomass_per_tree (results r2) \<and>
                 map co2_per_tree (results r1) = map co2_per_tree (results r2) \<and>
                 success r1 = success r2 \<and> species r1 = species r2 \<and> years r1 = years r2"
proof -
  have sp: "treeSpecies sp = Some sd" using assms(1) by (simp add: validRequest_def)
  show ?thesis
    by (simp add: calculateCarbonSequestration_eq [OF sp] recordFor_def comp_def)
qed

text \<open>The statement of C10 at pine, 3 years, with 1 and 100000 trees.\<close>

theorem per_tree_independent_of_treeCount_witness:
  "validRequest ''pine'' pine 1 3 \<and> validRequest ''pine'' pine 100000 3 \<and>
   (\<exists>r1 r2. calculateCarbonSequestration ''pine'' 1 3 = Inr r1 \<and>
            calculateCarbonSequestration ''pine'' 100000 3 = Inr r2 \<and>
            map year (results r1) = map year (results r2) \<and>
            map biomass_per_tree (results r1) = map biomass_per_tree (results r2) \<and>
            map co2_per_tree (results r1) = map co2_per_tree (results r2) \<and>
            success r1 = success r2 \<and> species r1 = species r2 \<and> years r1 = years r2)"
proof -
  have a: "validRequest ''pine'' pine 1 3" and b: "validRequest ''pine'' pine 100000 3"
    by (simp_all add: validRequest_def treeSpecies_pine)
  show ?thesis using per_tree_independent_of_treeCount [OF a b] a b by simp
qed

end
